theory Spec2Isabelle
  imports Main
begin

section \<open>The mini assembler: data model\<close>

text \<open>
  Embedding of \<^verbatim>\<open>mini_assembler.py\<close>. An \<^verbatim>\<open>Instruction\<close> object carries a
  \<^verbatim>\<open>key\<close> and, depending on the key, the attributes \<^verbatim>\<open>value_one\<close>,
  \<^verbatim>\<open>value_two\<close>, \<^verbatim>\<open>value_three\<close> and \<^verbatim>\<open>jump_to\<close>. One constructor per key,
  its arguments in that attribute order. The attribute \<^verbatim>\<open>line_no\<close> always equals the
  key under which the object is stored in \<^verbatim>\<open>self.instructions\<close>, so it is the first
  component of the entries of that dictionary below.
\<close>

datatype Instruction =
    Jump_zero string int
  | Inc string
  | Dec string
  | Jump int
  | Halt
  | Set_zero string
  | Transfer string string
  | Add string string
  | Abs_diff string string string

text \<open>
  Every exception the program can raise, one constructor per \<^verbatim>\<open>raise\<close> site or
  implicit Python failure:
  the four \<^verbatim>\<open>SyntaxError\<close>s of \<^verbatim>\<open>parse_assembly\<close>; the \<^verbatim>\<open>KeyError\<close> of a line that
  does not exist; the two \<^verbatim>\<open>TypeError\<close>s for incrementing and decrementing a variable
  that holds \<^verbatim>\<open>None\<close> (with the line); the \<^verbatim>\<open>KeyError\<close> of subscripting
  \<^verbatim>\<open>self.variables\<close> with a missing key; the \<^verbatim>\<open>TypeError\<close> of Python arithmetic on
  \<^verbatim>\<open>None\<close>; and the \<^verbatim>\<open>StopIteration\<close> that \<^verbatim>\<open>generator.send\<close> raises when the
  generator returns.
\<close>

datatype error =
    SyntaxError_no_line_number
  | SyntaxError_duplicate_line_number
  | SyntaxError_no_matching_instruction string
  | SyntaxError_line_numbers
  | KeyError_jumped_to_line int
  | KeyError_variable string
  | TypeError_incrementing int
  | TypeError_decrementing int
  | TypeError_operand
  | StopIteration

text \<open>
  \<^verbatim>\<open>self.variables\<close>: a dictionary from names to \<^verbatim>\<open>None\<close> or an integer. A key
  that is present and holds \<^verbatim>\<open>None\<close> is \<open>Some None\<close>; a key that is absent is
  \<open>None\<close>.
\<close>

type_synonym variables = "string \<rightharpoonup> int option"

record AssemblyParser =
  file_lines :: "string list"
  ext :: int
  instructions :: "(int \<times> Instruction) list"
  start_state :: "(string \<times> int) list option"
  variables :: variables

text \<open>
  \<^verbatim>\<open>__init__(self, file, start_state=None, ext=-1)\<close>. The field \<open>file_lines\<close> holds (for \<^verbatim>\<open>self.file\<close>)
  the lines that iterating over the opened file yields. The constructor stores the
  constant 0 in \<^verbatim>\<open>self.ext\<close>; its argument \<^verbatim>\<open>ext\<close> is not read.
  \<^verbatim>\<open>self.variables\<close> does not exist before \<^verbatim>\<open>parse_assembly\<close>; it is the empty
  map here.
\<close>

definition AssemblyParser_init ::
  "string list \<Rightarrow> (string \<times> int) list option \<Rightarrow> int \<Rightarrow> AssemblyParser" where
  "AssemblyParser_init f st e =
     \<lparr>file_lines = f, ext = 0, instructions = [], start_state = st, variables = Map.empty\<rparr>"

section \<open>The execution engine\<close>

subsection \<open>The instruction generator\<close>

text \<open>
  \<^verbatim>\<open>instruction_generator(limit)\<close> suspended at its \<^verbatim>\<open>yield\<close>: the values of its
  locals \<^verbatim>\<open>instruction\<close> and \<^verbatim>\<open>count\<close>. The value it has just yielded is
  \<open>instruction\<close>.
\<close>

record generator =
  instruction :: int
  count :: int

text \<open>
  The first \<^verbatim>\<open>next\<close>: runs from the top of the function to the first
  \<^verbatim>\<open>yield\<close>. \<open>None\<close> is the generator returning (the \<^verbatim>\<open>break\<close>).
\<close>

definition generator_start :: "int \<Rightarrow> generator option" where
  "generator_start limit =
     (if 0 > limit then None else Some \<lparr>instruction = 1, count = 0\<rparr>)"

text \<open>
  Resuming at the \<^verbatim>\<open>yield\<close> with the value \<open>jump\<close> (\<open>None\<close> for \<^verbatim>\<open>next\<close>,
  \<open>Some t\<close> for \<^verbatim>\<open>send(t)\<close>): the assignment to \<^verbatim>\<open>instruction\<close>, the increment
  of \<^verbatim>\<open>count\<close>, the test at the top of the loop and the next \<^verbatim>\<open>yield\<close>.
\<close>

definition generator_resume :: "int \<Rightarrow> int option \<Rightarrow> generator \<Rightarrow> generator option" where
  "generator_resume limit jump_value g =
     (let instruction' = (case jump_value of Some t \<Rightarrow> t - 1 | None \<Rightarrow> instruction g + 1);
          count' = count g + 1
      in if count' > limit then None
         else Some \<lparr>instruction = instruction', count = count'\<rparr>)"

subsection \<open>One pass through the body of the loop of \<^verbatim>\<open>run\<close>\<close>

text \<open>
  \<^verbatim>\<open>generator.send(t)\<close> inside \<^verbatim>\<open>run\<close>: the value the generator yields in answer
  is dropped; when the generator returns instead, \<^verbatim>\<open>StopIteration\<close> leaves
  \<^verbatim>\<open>run\<close>.
\<close>

definition send :: "int \<Rightarrow> int \<Rightarrow> generator \<Rightarrow> error + generator" where
  "send limit t g =
     (case generator_resume limit (Some t) g of
        None \<Rightarrow> Inl StopIteration
      | Some g' \<Rightarrow> Inr g')"

text \<open>
  The chain of \<^verbatim>\<open>if inst.key == ...\<close> for the instruction at line \<open>i\<close>. The
  result is the error raised, or whether the loop was left by \<^verbatim>\<open>break\<close>, the
  generator and the variables.
\<close>

fun execute ::
  "int \<Rightarrow> int \<Rightarrow> Instruction \<Rightarrow> generator \<Rightarrow> variables \<Rightarrow> error + (bool \<times> generator \<times> variables)"
where
  "execute limit i (Jump_zero v t) g vs =
     (case vs v of
        None \<Rightarrow> Inl (KeyError_variable v)
      | Some x \<Rightarrow>
          if x = Some 0
          then (case send limit t g of Inl e \<Rightarrow> Inl e | Inr g' \<Rightarrow> Inr (False, g', vs))
          else Inr (False, g, vs))"
| "execute limit i (Inc v) g vs =
     (case vs v of
        None \<Rightarrow> Inl (KeyError_variable v)
      | Some None \<Rightarrow> Inl (TypeError_incrementing i)
      | Some (Some n) \<Rightarrow> Inr (False, g, vs(v \<mapsto> Some (n + 1))))"
| "execute limit i (Dec v) g vs =
     (case vs v of
        None \<Rightarrow> Inl (KeyError_variable v)
      | Some None \<Rightarrow> Inl (TypeError_decrementing i)
      | Some (Some n) \<Rightarrow> Inr (False, g, vs(v \<mapsto> Some (n - 1))))"
| "execute limit i (Jump t) g vs =
     (case send limit t g of Inl e \<Rightarrow> Inl e | Inr g' \<Rightarrow> Inr (False, g', vs))"
| "execute limit i Halt g vs = Inr (True, g, vs)"
| "execute limit i (Set_zero v) g vs = Inr (False, g, vs(v \<mapsto> Some 0))"
| "execute limit i (Transfer v w) g vs =
     (case vs w of
        None \<Rightarrow> Inl (KeyError_variable w)
      | Some y \<Rightarrow> Inr (False, g, vs(v \<mapsto> y)))"
| "execute limit i (Add v w) g vs =
     (case vs v of
        None \<Rightarrow> Inl (KeyError_variable v)
      | Some x \<Rightarrow>
          (case vs w of
             None \<Rightarrow> Inl (KeyError_variable w)
           | Some y \<Rightarrow>
               (case (x, y) of
                  (Some a, Some b) \<Rightarrow> Inr (False, g, vs(v \<mapsto> Some (a + b)))
                | _ \<Rightarrow> Inl TypeError_operand)))"
| "execute limit i (Abs_diff z v w) g vs =
     (case vs v of
        None \<Rightarrow> Inl (KeyError_variable v)
      | Some x \<Rightarrow>
          (case vs w of
             None \<Rightarrow> Inl (KeyError_variable w)
           | Some y \<Rightarrow>
               (case (x, y) of
                  (Some a, Some b) \<Rightarrow> Inr (False, g, vs(z \<mapsto> Some \<bar>a - b\<bar>))
                | _ \<Rightarrow> Inl TypeError_operand)))"

text \<open>\<open>execute\<close> never lowers the generator's counter.\<close>

lemma generator_resume_count:
  "generator_resume limit j g = Some g' \<Longrightarrow> count g' = count g + 1 \<and> count g' \<le> limit"
  by (auto simp: generator_resume_def Let_def split: if_splits)

lemma send_count:
  "send limit t g = Inr g' \<Longrightarrow> count g' = count g + 1 \<and> count g' \<le> limit"
  by (auto simp: send_def split: option.splits dest: generator_resume_count)

lemma execute_count:
  "execute limit i inst g vs = Inr (b, g', vs') \<Longrightarrow> count g \<le> count g'"
  by (cases inst) (auto split: option.splits if_splits sum.splits dest: send_count)

subsection \<open>The loop of \<^verbatim>\<open>run\<close>\<close>

text \<open>
  One iteration of \<^verbatim>\<open>for i in generator:\<close>, entered with the generator suspended
  after yielding \<open>i = instruction g\<close>. The second component of the state is the list
  of line numbers that head the messages \<^verbatim>\<open>print\<close> writes when \<^verbatim>\<open>verbose\<close> is
  set: one entry for each instruction whose branch ran to its end, in order. Leaving the
  body without \<^verbatim>\<open>break\<close> calls \<^verbatim>\<open>next\<close>. The result is the error raised, or
  the state with the generator for the next iteration; no generator when the loop has
  ended, by \<^verbatim>\<open>break\<close> or because the generator returned.
\<close>

definition loop_body ::
  "int \<Rightarrow> (int \<times> Instruction) list \<Rightarrow> generator \<Rightarrow> variables \<times> int list
     \<Rightarrow> error + (generator option \<times> (variables \<times> int list))"
where
  "loop_body limit insts g st =
     (let i = instruction g in
      case map_of insts i of
        None \<Rightarrow> Inl (KeyError_jumped_to_line i)
      | Some inst \<Rightarrow>
          (case execute limit i inst g (fst st) of
             Inl e \<Rightarrow> Inl e
           | Inr (stop, g', vs') \<Rightarrow>
               if stop then Inr (None, (vs', snd st @ [i]))
               else Inr (generator_resume limit None g', (vs', snd st @ [i]))))"

lemma loop_body_count:
  assumes "loop_body limit insts g st = Inr (Some g', st')"
  shows "count g < count g' \<and> count g' \<le> limit"
proof -
  from assms obtain inst g1 vs1
    where e: "execute limit (instruction g) inst g (fst st) = Inr (False, g1, vs1)"
      and r: "generator_resume limit None g1 = Some g'"
    by (auto simp: loop_body_def Let_def split: option.splits sum.splits if_splits)
  from e have "count g \<le> count g1" by (rule execute_count)
  with generator_resume_count [OF r] show ?thesis by simp
qed

function run_loop ::
  "int \<Rightarrow> (int \<times> Instruction) list \<Rightarrow> generator \<Rightarrow> variables \<times> int list
     \<Rightarrow> error + (variables \<times> int list)"
where
  "run_loop limit insts g st =
     (case loop_body limit insts g st of
        Inl e \<Rightarrow> Inl e
      | Inr (None, st') \<Rightarrow> Inr st'
      | Inr (Some g', st') \<Rightarrow> run_loop limit insts g' st')"
  by pat_completeness auto
termination
  by (relation "measure (\<lambda>(limit, insts, g, st). nat (limit - count g))")
     (auto dest!: loop_body_count)

declare run_loop.simps [simp del]

text \<open>
  \<^verbatim>\<open>run(self)\<close>: the generator is created with the default limit 300. The result
  is the parser with its variables after the run, and the verbose output.
\<close>

definition run :: "AssemblyParser \<Rightarrow> error + (AssemblyParser \<times> int list)" where
  "run self =
     (case generator_start 300 of
        None \<Rightarrow> Inr (self, [])
      | Some g \<Rightarrow>
          (case run_loop 300 (instructions self) g (variables self, []) of
             Inl e \<Rightarrow> Inl e
           | Inr (vs, out) \<Rightarrow> Inr (self\<lparr>variables := vs\<rparr>, out)))"

section \<open>The parser\<close>

subsection \<open>Characters and strings\<close>

text \<open>
  A \<open>char\<close> stands for a code point below 256. \<open>is_letter\<close> is the class
  \<^verbatim>\<open>[a-zA-Z]\<close>, \<open>is_digit\<close> is \<^verbatim>\<open>\d\<close> (below 256 only the ten ASCII digits are
  decimal digits), \<open>is_space\<close> is the whitespace \<^verbatim>\<open>str.strip()\<close> removes: the
  code points 9 to 13, 28 to 32, 133 and 160.
\<close>

definition is_letter :: "char \<Rightarrow> bool" where
  "is_letter c =
     (let n = (of_char c :: nat) in (97 \<le> n \<and> n \<le> 122) \<or> (65 \<le> n \<and> n \<le> 90))"

definition is_digit :: "char \<Rightarrow> bool" where
  "is_digit c = (let n = (of_char c :: nat) in 48 \<le> n \<and> n \<le> 57)"

definition is_space :: "char \<Rightarrow> bool" where
  "is_space c =
     (let n = (of_char c :: nat)
      in (9 \<le> n \<and> n \<le> 13) \<or> (28 \<le> n \<and> n \<le> 32) \<or> n = 133 \<or> n = 160)"

definition strip :: "string \<Rightarrow> string" where
  "strip s = rev (dropWhile is_space (rev (dropWhile is_space s)))"

text \<open>\<^verbatim>\<open>int(...)\<close> on a string of decimal digits.\<close>

definition int_of_digits :: "string \<Rightarrow> int" where
  "int_of_digits ds = foldl (\<lambda>a c. 10 * a + (int (of_char c) - 48)) 0 ds"

definition startswith :: "string \<Rightarrow> string \<Rightarrow> bool" where
  "startswith s p = (take (length p) s = p)"

subsection \<open>The instruction patterns\<close>

text \<open>
  One function for each regular expression of \<^verbatim>\<open>basic_instructions\<close> and
  \<^verbatim>\<open>ext_instructions\<close>: \<^verbatim>\<open>re.fullmatch\<close> on the whole string, followed by the
  attribute assignments \<^verbatim>\<open>Instruction.__init__\<close> makes for that key. \<open>None\<close> is
  no match.
\<close>

definition match_jump_zero :: "string \<Rightarrow> Instruction option" where
  \<comment> \<open>\<^verbatim>\<open>if \(([a-zA-Z]) == 0\) goto (\d+)\<close>\<close>
  "match_jump_zero s =
     (let v = take 1 (drop 4 s); ds = drop 17 s
      in if take 4 s = ''if ('' \<and> v \<noteq> [] \<and> list_all is_letter v
            \<and> take 12 (drop 5 s) = '' == 0) goto ''
            \<and> ds \<noteq> [] \<and> list_all is_digit ds
         then Some (Jump_zero v (int_of_digits ds)) else None)"

definition match_inc :: "string \<Rightarrow> Instruction option" where
  \<comment> \<open>\<^verbatim>\<open>([a-zA-Z]) = \1 \+ 1\<close>\<close>
  "match_inc s =
     (let v = take 1 s
      in if v \<noteq> [] \<and> list_all is_letter v \<and> s = v @ '' = '' @ v @ '' + 1''
         then Some (Inc v) else None)"

definition match_dec :: "string \<Rightarrow> Instruction option" where
  \<comment> \<open>\<^verbatim>\<open>([a-zA-Z]) = \1 \- 1\<close>\<close>
  "match_dec s =
     (let v = take 1 s
      in if v \<noteq> [] \<and> list_all is_letter v \<and> s = v @ '' = '' @ v @ '' - 1''
         then Some (Dec v) else None)"

definition match_jump :: "string \<Rightarrow> Instruction option" where
  \<comment> \<open>\<^verbatim>\<open>goto (\d+)\<close>\<close>
  "match_jump s =
     (let ds = drop 5 s
      in if take 5 s = ''goto '' \<and> ds \<noteq> [] \<and> list_all is_digit ds
         then Some (Jump (int_of_digits ds)) else None)"

definition match_halt :: "string \<Rightarrow> Instruction option" where
  \<comment> \<open>\<^verbatim>\<open>stop\<close>\<close>
  "match_halt s = (if s = ''stop'' then Some Halt else None)"

definition match_set_zero :: "string \<Rightarrow> Instruction option" where
  \<comment> \<open>\<^verbatim>\<open>([a-zA-Z]) = 0\<close>\<close>
  "match_set_zero s =
     (let v = take 1 s
      in if v \<noteq> [] \<and> list_all is_letter v \<and> s = v @ '' = 0''
         then Some (Set_zero v) else None)"

definition match_transfer :: "string \<Rightarrow> Instruction option" where
  \<comment> \<open>\<^verbatim>\<open>([a-zA-Z]) = ([a-zA-Z])\<close>\<close>
  "match_transfer s =
     (let v = take 1 s; w = take 1 (drop 4 s)
      in if v \<noteq> [] \<and> list_all is_letter v \<and> w \<noteq> [] \<and> list_all is_letter w
            \<and> s = v @ '' = '' @ w
         then Some (Transfer v w) else None)"

definition match_add :: "string \<Rightarrow> Instruction option" where
  \<comment> \<open>\<^verbatim>\<open>([a-zA-Z]) = \1 \+ ([a-zA-Z])\<close>\<close>
  "match_add s =
     (let v = take 1 s; w = take 1 (drop 8 s)
      in if v \<noteq> [] \<and> list_all is_letter v \<and> w \<noteq> [] \<and> list_all is_letter w
            \<and> s = v @ '' = '' @ v @ '' + '' @ w
         then Some (Add v w) else None)"

definition match_abs_diff :: "string \<Rightarrow> Instruction option" where
  \<comment> \<open>\<^verbatim>\<open>([a-zA-Z]) = abs\(([a-zA-Z]) - ([a-zA-Z])\)\<close>\<close>
  "match_abs_diff s =
     (let z = take 1 s; v = take 1 (drop 8 s); w = take 1 (drop 12 s)
      in if z \<noteq> [] \<and> list_all is_letter z \<and> v \<noteq> [] \<and> list_all is_letter v
            \<and> w \<noteq> [] \<and> list_all is_letter w
            \<and> s = z @ '' = abs('' @ v @ '' - '' @ w @ '')''
         then Some (Abs_diff z v w) else None)"

text \<open>The two tables, in the order of the dictionaries.\<close>

definition basic_instructions :: "(string \<Rightarrow> Instruction option) list" where
  "basic_instructions =
     [match_jump_zero, match_inc, match_dec, match_jump, match_halt, match_set_zero]"

definition ext_instructions :: "(string \<Rightarrow> Instruction option) list" where
  "ext_instructions = [match_transfer, match_add, match_abs_diff]"

text \<open>
  The loop over \<^verbatim>\<open>basic_instructions\<close>: the first pattern that matches wins.
\<close>

fun find_basic :: "(string \<Rightarrow> Instruction option) list \<Rightarrow> string \<Rightarrow> Instruction option" where
  "find_basic [] s = None"
| "find_basic (m # ms) s =
     (case m s of Some inst \<Rightarrow> Some inst | None \<Rightarrow> find_basic ms s)"

text \<open>
  The loop over \<^verbatim>\<open>enumerate(ext_instructions)\<close> with the index \<open>i\<close>: it is left
  as soon as \<^verbatim>\<open>not i <= self.ext\<close>.
\<close>

fun find_ext ::
  "int \<Rightarrow> int \<Rightarrow> (string \<Rightarrow> Instruction option) list \<Rightarrow> string \<Rightarrow> Instruction option" where
  "find_ext e i [] s = None"
| "find_ext e i (m # ms) s =
     (if \<not> i \<le> e then None
      else (case m s of Some inst \<Rightarrow> Some inst | None \<Rightarrow> find_ext e (i + 1) ms s))"

definition recognise :: "int \<Rightarrow> string \<Rightarrow> Instruction option" where
  "recognise e s =
     (case find_basic basic_instructions s of
        Some inst \<Rightarrow> Some inst
      | None \<Rightarrow> find_ext e 0 ext_instructions s)"

subsection \<open>Lines\<close>

text \<open>
  \<^verbatim>\<open>re.match(r"\((\d+)\) (.*)", line)\<close>: the number and the code, which runs up to
  the end of the line (\<^verbatim>\<open>.\<close> matches everything but the newline, code point 10).
\<close>

definition line_match :: "string \<Rightarrow> (int \<times> string) option" where
  "line_match line =
     (let ds = takeWhile is_digit (drop 1 line); r = dropWhile is_digit (drop 1 line)
      in if take 1 line = ''('' \<and> ds \<noteq> [] \<and> take 2 r = '') ''
         then Some (int_of_digits ds, takeWhile (\<lambda>c. of_char c \<noteq> (10::nat)) (drop 2 r))
         else None)"

text \<open>
  The loop \<^verbatim>\<open>for line in file\<close>, with \<^verbatim>\<open>self.instructions\<close> as the accumulator
  (a dictionary keeps its keys in the order of insertion, and no key is stored twice).
\<close>

fun parse_lines ::
  "int \<Rightarrow> string list \<Rightarrow> (int \<times> Instruction) list \<Rightarrow> error + (int \<times> Instruction) list" where
  "parse_lines e [] insts = Inr insts"
| "parse_lines e (line # rest) insts =
     (if startswith line ''//'' then parse_lines e rest insts
      else (case line_match line of
              None \<Rightarrow> Inl SyntaxError_no_line_number
            | Some (line_number, code) \<Rightarrow>
                if map_of insts line_number \<noteq> None then Inl SyntaxError_duplicate_line_number
                else (case recognise e (strip code) of
                        None \<Rightarrow> Inl (SyntaxError_no_matching_instruction (strip code))
                      | Some inst \<Rightarrow> parse_lines e rest (insts @ [(line_number, inst)]))))"

text \<open>The attributes \<^verbatim>\<open>value_one\<close>, \<^verbatim>\<open>value_two\<close>, \<^verbatim>\<open>value_three\<close> an instruction has.\<close>

fun values_of :: "Instruction \<Rightarrow> string list" where
  "values_of (Jump_zero v t) = [v]"
| "values_of (Inc v) = [v]"
| "values_of (Dec v) = [v]"
| "values_of (Jump t) = []"
| "values_of Halt = []"
| "values_of (Set_zero v) = [v]"
| "values_of (Transfer v w) = [v, w]"
| "values_of (Add v w) = [v, w]"
| "values_of (Abs_diff z v w) = [z, v, w]"

text \<open>
  \<^verbatim>\<open>{key: None for key in self.variables}\<close>, then the entries of
  \<^verbatim>\<open>start_state\<close> written over it (nothing when it is \<^verbatim>\<open>None\<close> or empty).
\<close>

definition collect_variables ::
  "(int \<times> Instruction) list \<Rightarrow> (string \<times> int) list option \<Rightarrow> variables" where
  "collect_variables insts st =
     (let table = map_of (map (\<lambda>k. (k, None)) (concat (map (\<lambda>(n, inst). values_of inst) insts)))
      in case st of
           None \<Rightarrow> table
         | Some items \<Rightarrow> foldl (\<lambda>m (k, v). m(k \<mapsto> Some v)) table items)"

text \<open>
  The last loop, over \<^verbatim>\<open>enumerate(keys)\<close> from the index \<open>i\<close>: \<open>False\<close> when
  it raises.
\<close>

fun check_keys :: "int \<Rightarrow> int list \<Rightarrow> bool" where
  "check_keys i [] = True"
| "check_keys i (k # ks) = (if i + 1 \<noteq> k then False else check_keys (i + 1) ks)"

definition parse_assembly :: "AssemblyParser \<Rightarrow> error + AssemblyParser" where
  "parse_assembly self =
     (case parse_lines (ext self) (file_lines self) (instructions self) of
        Inl e \<Rightarrow> Inl e
      | Inr insts \<Rightarrow>
          if check_keys 0 (map fst insts)
          then Inr (self\<lparr>instructions := insts,
                         variables := collect_variables insts (start_state self)\<rparr>)
          else Inl SyntaxError_line_numbers)"

section \<open>The whole pipeline and the vocabulary of the properties\<close>

text \<open>
  What the script does with a file: it constructs the parser, calls
  \<^verbatim>\<open>parse_assembly\<close> and then \<^verbatim>\<open>run\<close>. An exception of either call ends the
  script, so an error of the parser comes before any execution. The result is the final
  variables and the verbose output.
\<close>

definition assemble_and_run ::
  "string list \<Rightarrow> (string \<times> int) list option \<Rightarrow> int \<Rightarrow> error + (variables \<times> int list)" where
  "assemble_and_run f st e =
     (case parse_assembly (AssemblyParser_init f st e) of
        Inl err \<Rightarrow> Inl err
      | Inr parser \<Rightarrow>
          (case run parser of
             Inl err \<Rightarrow> Inl err
           | Inr (parser', out) \<Rightarrow> Inr (variables parser', out)))"

definition final_value :: "error + (variables \<times> int list) \<Rightarrow> string \<Rightarrow> int option option" where
  "final_value r x = (case r of Inl e \<Rightarrow> None | Inr (vs, out) \<Rightarrow> vs x)"

definition output_of :: "error + (variables \<times> int list) \<Rightarrow> int list option" where
  "output_of r = (case r of Inl e \<Rightarrow> None | Inr (vs, out) \<Rightarrow> Some out)"

definition newline :: char where
  "newline = CHR 0x0A"

text \<open>
  The file that holds the line \<^verbatim>\<open>(1) stop\<close> alone, with or without a newline at
  its end.
\<close>

definition stop_file :: "bool \<Rightarrow> string list" where
  "stop_file final_newline = [''(1) stop'' @ (if final_newline then [newline] else [])]"

text \<open>
  The state of the loop of \<^verbatim>\<open>run\<close> at the start of its iteration number \<open>n\<close>
  (counted from 0), when the loop gets that far: \<open>n\<close> iterations have ended without
  an error and without leaving the loop.
\<close>

fun reach ::
  "nat \<Rightarrow> int \<Rightarrow> (int \<times> Instruction) list \<Rightarrow> generator \<Rightarrow> variables \<times> int list
     \<Rightarrow> (generator \<times> (variables \<times> int list)) option"
where
  "reach 0 limit insts g st = Some (g, st)"
| "reach (Suc n) limit insts g st =
     (case loop_body limit insts g st of
        Inr (Some g', st') \<Rightarrow> reach n limit insts g' st'
      | _ \<Rightarrow> None)"

text \<open>The same instruction executed \<open>n\<close> times in a row on the variables.\<close>

fun execute_times ::
  "nat \<Rightarrow> int \<Rightarrow> int \<Rightarrow> Instruction \<Rightarrow> generator \<Rightarrow> variables \<Rightarrow> error + variables" where
  "execute_times 0 limit i inst g vs = Inr vs"
| "execute_times (Suc n) limit i inst g vs =
     (case execute limit i inst g vs of
        Inl e \<Rightarrow> Inl e
      | Inr (stop, g', vs') \<Rightarrow> execute_times n limit i inst g' vs')"

text \<open>
  The result is one of the two \<^verbatim>\<open>TypeError\<close>s for a variable with no value.
\<close>

definition raises_uninitialised :: "error + 'a \<Rightarrow> bool" where
  "raises_uninitialised r =
     (case r of
        Inl (TypeError_incrementing j) \<Rightarrow> True
      | Inl (TypeError_decrementing j) \<Rightarrow> True
      | _ \<Rightarrow> False)"

text \<open>
  For the numbering check: the lines of a file that are not comments, what one such line
  parses to on its own (its number and instruction), and the numbers of the lines in the
  order of the file.
\<close>

definition source_lines :: "string list \<Rightarrow> string list" where
  "source_lines f = filter (\<lambda>line. \<not> startswith line ''//'') f"

definition parse_line :: "int \<Rightarrow> string \<Rightarrow> (int \<times> Instruction) option" where
  "parse_line e line =
     (case line_match line of
        None \<Rightarrow> None
      | Some (line_number, code) \<Rightarrow>
          (case recognise e (strip code) of
             None \<Rightarrow> None
           | Some inst \<Rightarrow> Some (line_number, inst)))"

definition line_numbers :: "string list \<Rightarrow> int list" where
  "line_numbers f = map fst (List.map_filter line_match (source_lines f))"

section \<open>Auxiliary facts\<close>

lemma run_unfold:
  "run self =
     (case run_loop 300 (instructions self) \<lparr>instruction = 1, count = 0\<rparr> (variables self, []) of
        Inl e \<Rightarrow> Inl e
      | Inr (vs, out) \<Rightarrow> Inr (self\<lparr>variables := vs\<rparr>, out))"
  by (simp add: run_def generator_start_def)

text \<open>The loop is tail recursive: its result from a later iteration is its result.\<close>

lemma reach_run_loop:
  "reach n limit insts g st = Some (g', st') \<Longrightarrow>
   run_loop limit insts g st = run_loop limit insts g' st'"
proof (induction n arbitrary: g st)
  case 0
  then show ?case by simp
next
  case (Suc n)
  then obtain g1 st1 where b: "loop_body limit insts g st = Inr (Some g1, st1)"
    and r: "reach n limit insts g1 st1 = Some (g', st')"
    by (auto split: sum.splits option.splits)
  have "run_loop limit insts g st = run_loop limit insts g1 st1"
    by (subst run_loop.simps) (simp add: b)
  with Suc.IH [OF r] show ?case by simp
qed

lemma run_loop_error:
  "loop_body limit insts g st = Inl e \<Longrightarrow> run_loop limit insts g st = Inl e"
  by (subst run_loop.simps) simp

lemma run_reach_error:
  assumes "reach n 300 (instructions self) \<lparr>instruction = 1, count = 0\<rparr> (variables self, [])
             = Some (g, st)"
    and "loop_body 300 (instructions self) g st = Inl e"
  shows "run self = Inl e"
  using reach_run_loop [OF assms(1)] run_loop_error [OF assms(2)]
  by (simp add: run_unfold)

lemma resume_next:
  "generator_resume limit None g =
     (if count g + 1 > limit then None
      else Some \<lparr>instruction = instruction g + 1, count = count g + 1\<rparr>)"
  by (simp add: generator_resume_def)

lemma inc_times:
  "vs x = Some (Some v) \<Longrightarrow>
   execute_times n limit i (Inc x) g vs = Inr (vs(x \<mapsto> Some (v + int n)))"
proof (induction n arbitrary: vs v)
  case 0
  then show ?case by (simp add: map_upd_triv)
next
  case (Suc n)
  let ?vs = "vs(x \<mapsto> Some (v + 1))"
  have p: "?vs x = Some (Some (v + 1))" by simp
  have ih: "execute_times n limit i (Inc x) g ?vs = Inr (?vs(x \<mapsto> Some (v + 1 + int n)))"
    by (rule Suc.IH [of ?vs "v + 1", OF p])
  have ar: "v + 1 + int n = v + int (Suc n)" by simp
  have "execute_times (Suc n) limit i (Inc x) g vs = execute_times n limit i (Inc x) g ?vs"
    using Suc.prems by simp
  also have "\<dots> = Inr (vs(x \<mapsto> Some (v + int (Suc n))))"
    by (simp only: ih ar fun_upd_upd)
  finally show ?case .
qed

lemma dec_times:
  "vs x = Some (Some v) \<Longrightarrow>
   execute_times n limit i (Dec x) g vs = Inr (vs(x \<mapsto> Some (v - int n)))"
proof (induction n arbitrary: vs v)
  case 0
  then show ?case by (simp add: map_upd_triv)
next
  case (Suc n)
  let ?vs = "vs(x \<mapsto> Some (v - 1))"
  have p: "?vs x = Some (Some (v - 1))" by simp
  have ih: "execute_times n limit i (Dec x) g ?vs = Inr (?vs(x \<mapsto> Some (v - 1 - int n)))"
    by (rule Suc.IH [of ?vs "v - 1", OF p])
  have ar: "v - 1 - int n = v - int (Suc n)" by simp
  have "execute_times (Suc n) limit i (Dec x) g vs = execute_times n limit i (Dec x) g ?vs"
    using Suc.prems by simp
  also have "\<dots> = Inr (vs(x \<mapsto> Some (v - int (Suc n))))"
    by (simp only: ih ar fun_upd_upd)
  finally show ?case .
qed

lemma stop_line: "line_match (''(1) stop'' @ (if b then [newline] else [])) = Some (1, ''stop'')"
proof (cases b)
  case True
  have "line_match (''(1) stop'' @ [newline]) = Some (1, ''stop'')" by code_simp
  with True show ?thesis by simp
next
  case False
  have "line_match ''(1) stop'' = Some (1, ''stop'')" by code_simp
  with False show ?thesis by simp
qed

lemma stop_code: "recognise e (strip ''stop'') = Some Halt"
  by code_simp

lemma stop_comment: "\<not> startswith (''(1) stop'' @ (if b then [newline] else [])) ''//''"
  by (simp add: startswith_def)

lemma check_keys_upto: "check_keys i ks = (ks = [i + 1 .. i + int (length ks)])"
proof (induction ks arbitrary: i)
  case Nil
  then show ?case by simp
next
  case (Cons k ks)
  have "[i + 1 .. i + int (length (k # ks))] = (i + 1) # [i + 1 + 1 .. i + 1 + int (length ks)]"
    by (subst upto_rec1) (simp_all add: add.assoc add.commute add.left_commute)
  with Cons.IH [of "i + 1"] show ?case by auto
qed

lemma parse_lines_all:
  assumes "\<forall>line \<in> set (source_lines f). parse_line e line \<noteq> None"
    and "distinct (map fst insts @ line_numbers f)"
  shows "\<exists>new. parse_lines e f insts = Inr (insts @ new) \<and> map fst new = line_numbers f"
  using assms
proof (induction f arbitrary: insts)
  case Nil
  then show ?case by (simp add: line_numbers_def source_lines_def map_filter_simps)
next
  case (Cons line f)
  show ?case
  proof (cases "startswith line ''//''")
    case True
    with Cons.prems have "\<forall>l \<in> set (source_lines f). parse_line e l \<noteq> None"
      and "distinct (map fst insts @ line_numbers f)"
      by (simp_all add: source_lines_def line_numbers_def)
    from Cons.IH [OF this] True show ?thesis
      by (simp add: source_lines_def line_numbers_def)
  next
    case False
    then have sl: "source_lines (line # f) = line # source_lines f"
      by (simp add: source_lines_def)
    with Cons.prems(1) obtain n inst where pl: "parse_line e line = Some (n, inst)"
      by fastforce
    then obtain code where lm: "line_match line = Some (n, code)"
      and rc: "recognise e (strip code) = Some inst"
      by (auto simp: parse_line_def split: option.splits)
    have ln: "line_numbers (line # f) = n # line_numbers f"
      by (simp add: line_numbers_def sl map_filter_simps lm)
    from Cons.prems(2) ln have fresh: "map_of insts n = None"
      by (auto simp: map_of_eq_None_iff)
    from Cons.prems sl ln
    have "\<forall>l \<in> set (source_lines f). parse_line e l \<noteq> None"
      and "distinct (map fst (insts @ [(n, inst)]) @ line_numbers f)"
      by auto
    from Cons.IH [OF this] obtain new
      where "parse_lines e f (insts @ [(n, inst)]) = Inr ((insts @ [(n, inst)]) @ new)"
        and "map fst new = line_numbers f"
      by blast
    with False lm rc fresh ln show ?thesis
      by (intro exI [of _ "(n, inst) # new"]) simp
  qed
qed

section \<open>Properties of the execution engine\<close>

text \<open>
  C4. At every iteration of the loop of \<^verbatim>\<open>run\<close>, whichever way it was reached (a
  jump or the advance to the next line), if the line number the generator yielded has no
  instruction, \<^verbatim>\<open>run\<close> raises the \<^verbatim>\<open>KeyError\<close> for that line: the error is the
  result of the whole run, which does not end silently there.
\<close>

theorem missing_line_raises:
  assumes "reach n 300 (instructions self) \<lparr>instruction = 1, count = 0\<rparr> (variables self, [])
             = Some (g, st)"
    and "map_of (instructions self) (instruction g) = None"
  shows "run self = Inl (KeyError_jumped_to_line (instruction g))"
proof -
  from assms(2)
  have "loop_body 300 (instructions self) g st = Inl (KeyError_jumped_to_line (instruction g))"
    by (simp add: loop_body_def)
  with assms(1) show ?thesis by (rule run_reach_error)
qed

theorem missing_line_raises_witness:
  "run \<lparr>file_lines = [], ext = 0, instructions = [(1, Set_zero ''x''), (2, Jump 99)],
        start_state = None, variables = [''x'' \<mapsto> None]\<rparr> = Inl (KeyError_jumped_to_line 99)
   \<and> run \<lparr>file_lines = [], ext = 0, instructions = [(1, Set_zero ''x'')],
        start_state = None, variables = [''x'' \<mapsto> None]\<rparr> = Inl (KeyError_jumped_to_line 2)"
proof
  let ?P = "\<lparr>file_lines = [], ext = 0, instructions = [(1, Set_zero ''x''), (2, Jump 99)],
        start_state = None, variables = [''x'' \<mapsto> None]\<rparr>"
  have r: "reach 2 300 (instructions ?P) \<lparr>instruction = 1, count = 0\<rparr> (variables ?P, [])
     = Some (\<lparr>instruction = 99, count = 3\<rparr>, ([''x'' \<mapsto> Some 0], [1, 2]))"
    by (simp add: numeral_2_eq_2 loop_body_def generator_resume_def send_def)
  show "run ?P = Inl (KeyError_jumped_to_line 99)"
    using missing_line_raises [OF r] by simp
next
  let ?Q = "\<lparr>file_lines = [], ext = 0, instructions = [(1, Set_zero ''x'')],
        start_state = None, variables = [''x'' \<mapsto> None]\<rparr>"
  have r: "reach 1 300 (instructions ?Q) \<lparr>instruction = 1, count = 0\<rparr> (variables ?Q, [])
     = Some (\<lparr>instruction = 2, count = 1\<rparr>, ([''x'' \<mapsto> Some 0], [1]))"
    by (simp add: loop_body_def generator_resume_def)
  show "run ?Q = Inl (KeyError_jumped_to_line 2)"
    using missing_line_raises [OF r] by simp
qed

text \<open>
  C5. Executing an increment or a decrement raises the \<^verbatim>\<open>TypeError\<close> for a variable
  without a value exactly when the variable it names holds \<^verbatim>\<open>None\<close>; and then, at
  whichever iteration of the loop this happens, that error is the result of the whole
  run: nothing is executed after it.
\<close>

theorem uninitialised_raises:
  assumes "inst = Inc v \<or> inst = Dec v"
  shows "raises_uninitialised (execute limit i inst g vs) = (vs v = Some None)
    \<and> (reach n 300 (instructions self) \<lparr>instruction = 1, count = 0\<rparr> (variables self, [])
           = Some (g, (vs, out))
         \<and> map_of (instructions self) (instruction g) = Some inst \<and> vs v = Some None
       \<longrightarrow> run self = Inl (if inst = Inc v then TypeError_incrementing (instruction g)
                           else TypeError_decrementing (instruction g)))"
proof (intro conjI impI)
  from assms show "raises_uninitialised (execute limit i inst g vs) = (vs v = Some None)"
    by (auto simp: raises_uninitialised_def split: option.splits)
next
  assume a: "reach n 300 (instructions self) \<lparr>instruction = 1, count = 0\<rparr> (variables self, [])
           = Some (g, (vs, out))
         \<and> map_of (instructions self) (instruction g) = Some inst \<and> vs v = Some None"
  with assms have "loop_body 300 (instructions self) g (vs, out)
      = Inl (if inst = Inc v then TypeError_incrementing (instruction g)
                           else TypeError_decrementing (instruction g))"
    by (auto simp: loop_body_def)
  with a show "run self = Inl (if inst = Inc v then TypeError_incrementing (instruction g)
                           else TypeError_decrementing (instruction g))"
    using run_reach_error by blast
qed

theorem uninitialised_raises_witness:
  "run \<lparr>file_lines = [], ext = 0, instructions = [(1, Set_zero ''y''), (2, Inc ''x'')],
        start_state = None, variables = [''x'' \<mapsto> None, ''y'' \<mapsto> None]\<rparr>
     = Inl (TypeError_incrementing 2)
   \<and> run \<lparr>file_lines = [], ext = 0, instructions = [(1, Set_zero ''y''), (2, Dec ''x'')],
        start_state = None, variables = [''x'' \<mapsto> None, ''y'' \<mapsto> None]\<rparr>
     = Inl (TypeError_decrementing 2)"
proof
  let ?P = "\<lparr>file_lines = [], ext = 0, instructions = [(1, Set_zero ''y''), (2, Inc ''x'')],
        start_state = None, variables = [''x'' \<mapsto> None, ''y'' \<mapsto> None]\<rparr>"
  have r: "reach 1 300 (instructions ?P) \<lparr>instruction = 1, count = 0\<rparr> (variables ?P, [])
     = Some (\<lparr>instruction = 2, count = 1\<rparr>, ([''x'' \<mapsto> None, ''y'' \<mapsto> Some 0], [1]))"
    by (simp add: loop_body_def generator_resume_def)
  show "run ?P = Inl (TypeError_incrementing 2)"
    using uninitialised_raises [of "Inc ''x''" "''x''" 300 2 "\<lparr>instruction = 2, count = 1\<rparr>"
        "[''x'' \<mapsto> None, ''y'' \<mapsto> Some 0]" 1 ?P "[1]"] r
    by simp
next
  let ?P = "\<lparr>file_lines = [], ext = 0, instructions = [(1, Set_zero ''y''), (2, Dec ''x'')],
        start_state = None, variables = [''x'' \<mapsto> None, ''y'' \<mapsto> None]\<rparr>"
  have r: "reach 1 300 (instructions ?P) \<lparr>instruction = 1, count = 0\<rparr> (variables ?P, [])
     = Some (\<lparr>instruction = 2, count = 1\<rparr>, ([''x'' \<mapsto> None, ''y'' \<mapsto> Some 0], [1]))"
    by (simp add: loop_body_def generator_resume_def)
  show "run ?P = Inl (TypeError_decrementing 2)"
    using uninitialised_raises [of "Dec ''x''" "''x''" 300 2 "\<lparr>instruction = 2, count = 1\<rparr>"
        "[''x'' \<mapsto> None, ''y'' \<mapsto> Some 0]" 1 ?P "[1]"] r
    by simp
qed

text \<open>
  C6. On a variable that holds the integer \<open>v\<close>, an increment stores exactly
  \<open>v + 1\<close> and a decrement exactly \<open>v - 1\<close>, and neither touches anything else;
  \<open>n\<close> increments store \<open>v + n\<close>, and \<open>n\<close> increments followed by \<open>n\<close>
  decrements give back the variables as they were.
\<close>

theorem increment_decrement_exact:
  assumes "vs x = Some (Some v)"
  shows "execute limit i (Inc x) g vs = Inr (False, g, vs(x \<mapsto> Some (v + 1)))
     \<and> execute limit i (Dec x) g vs = Inr (False, g, vs(x \<mapsto> Some (v - 1)))
     \<and> execute_times n limit i (Inc x) g vs = Inr (vs(x \<mapsto> Some (v + int n)))
     \<and> (case execute_times n limit i (Inc x) g vs of
           Inl e \<Rightarrow> Inl e
         | Inr vs' \<Rightarrow> execute_times n limit j (Dec x) g vs') = Inr vs"
proof -
  let ?vs = "vs(x \<mapsto> Some (v + int n))"
  from assms have b: "vs(x \<mapsto> Some v) = vs" by (simp add: map_upd_triv)
  have up: "execute_times n limit i (Inc x) g vs = Inr ?vs"
    using assms by (rule inc_times)
  have p: "?vs x = Some (Some (v + int n))" by simp
  have "execute_times n limit j (Dec x) g ?vs = Inr (?vs(x \<mapsto> Some (v + int n - int n)))"
    by (rule dec_times [of ?vs x "v + int n" n limit j g, OF p])
  then have down: "execute_times n limit j (Dec x) g ?vs = Inr vs"
    by (simp only: fun_upd_upd add_diff_cancel b)
  from assms show ?thesis
    by (simp add: up down)
qed

theorem increment_decrement_exact_witness:
  "execute 300 1 (Inc ''x'') \<lparr>instruction = 1, count = 0\<rparr> [''x'' \<mapsto> Some 7]
      = Inr (False, \<lparr>instruction = 1, count = 0\<rparr>, [''x'' \<mapsto> Some 8])
   \<and> (case execute_times 3 300 1 (Inc ''x'') \<lparr>instruction = 1, count = 0\<rparr> [''x'' \<mapsto> Some 7] of
           Inl e \<Rightarrow> Inl e
         | Inr vs' \<Rightarrow> execute_times 3 300 4 (Dec ''x'') \<lparr>instruction = 1, count = 0\<rparr> vs')
      = Inr [''x'' \<mapsto> Some 7]"
  using increment_decrement_exact [of "[''x'' \<mapsto> Some 7]" "''x''" 7 300 1
      "\<lparr>instruction = 1, count = 0\<rparr>" 3 4]
  by (simp add: numeral_3_eq_3)

text \<open>
  C8. A transfer whose source holds \<^verbatim>\<open>None\<close> raises nothing: the destination is set
  to \<^verbatim>\<open>None\<close>, and the iteration ends with \<^verbatim>\<open>next\<close>, which moves the generator to
  the following line (unless its counter passes the limit there, which ends the loop).
\<close>

theorem transfer_of_uninitialised:
  assumes "vs w = Some None"
  shows "execute limit i (Transfer v w) g vs = Inr (False, g, vs(v \<mapsto> None))
    \<and> (map_of insts (instruction g) = Some (Transfer v w) \<longrightarrow>
         loop_body limit insts g (vs, out) =
           Inr (if count g + 1 > limit then None
                else Some \<lparr>instruction = instruction g + 1, count = count g + 1\<rparr>,
                (vs(v \<mapsto> None), out @ [instruction g])))"
  using assms by (simp add: loop_body_def resume_next Let_def)

theorem transfer_of_uninitialised_witness:
  "loop_body 300 [(1, Transfer ''y'' ''x'')] \<lparr>instruction = 1, count = 0\<rparr>
      ([''x'' \<mapsto> None, ''y'' \<mapsto> Some 5], [])
     = Inr (Some \<lparr>instruction = 2, count = 1\<rparr>, ([''x'' \<mapsto> None, ''y'' \<mapsto> None], [1]))"
  using transfer_of_uninitialised [of "[''x'' \<mapsto> None, ''y'' \<mapsto> Some 5]" "''x''" 300 1
      "''y''" "\<lparr>instruction = 1, count = 0\<rparr>" "[(1, Transfer ''y'' ''x'')]" "[]"]
  by simp

text \<open>
  C10. A conditional jump on a variable that holds \<^verbatim>\<open>None\<close> raises nothing:
  \<^verbatim>\<open>None == 0\<close> is false, so nothing is sent to the generator, the variables stay as
  they are, and the iteration ends with \<^verbatim>\<open>next\<close>, which moves the generator to the
  following line (unless its counter passes the limit there, which ends the loop).
\<close>

theorem jump_zero_of_uninitialised:
  assumes "vs v = Some None"
  shows "execute limit i (Jump_zero v t) g vs = Inr (False, g, vs)
    \<and> (map_of insts (instruction g) = Some (Jump_zero v t) \<longrightarrow>
         loop_body limit insts g (vs, out) =
           Inr (if count g + 1 > limit then None
                else Some \<lparr>instruction = instruction g + 1, count = count g + 1\<rparr>,
                (vs, out @ [instruction g])))"
  using assms by (simp add: loop_body_def resume_next Let_def)

theorem jump_zero_of_uninitialised_witness:
  "loop_body 300 [(1, Jump_zero ''x'' 7)] \<lparr>instruction = 1, count = 0\<rparr> ([''x'' \<mapsto> None], [])
     = Inr (Some \<lparr>instruction = 2, count = 1\<rparr>, ([''x'' \<mapsto> None], [1]))"
  using jump_zero_of_uninitialised [of "[''x'' \<mapsto> None]" "''x''" 300 1 7
      "\<lparr>instruction = 1, count = 0\<rparr>" "[(1, Jump_zero ''x'' 7)]" "[]"]
  by simp

section \<open>Runs of whole programs\<close>

text \<open>
  C9. The program that consists of the line \<^verbatim>\<open>(1) stop\<close> alone (with or without
  a final newline), with any initial bindings: it parses, the run ends at once at the \<^verbatim>\<open>break\<close> without an error, and
  the parser after the run is the parser before it, so every entry of the variable
  table, the initial bindings included, is as it was.
\<close>

theorem stop_only_program:
  "parse_assembly (AssemblyParser_init (stop_file b) st e) =
     Inr \<lparr>file_lines = stop_file b, ext = 0, instructions = [(1, Halt)], start_state = st,
          variables = collect_variables [] st\<rparr>
   \<and> run \<lparr>file_lines = stop_file b, ext = 0, instructions = [(1, Halt)], start_state = st,
          variables = collect_variables [] st\<rparr> =
     Inr (\<lparr>file_lines = stop_file b, ext = 0, instructions = [(1, Halt)], start_state = st,
          variables = collect_variables [] st\<rparr>, [1])
   \<and> assemble_and_run (stop_file b) st e = Inr (collect_variables [] st, [1])"
proof -
  let ?P = "\<lparr>file_lines = stop_file b, ext = 0, instructions = [(1, Halt)], start_state = st,
          variables = collect_variables [] st\<rparr>"
  have c: "collect_variables [(1, Halt)] st = collect_variables [] st"
    by (simp add: collect_variables_def)
  have "parse_lines 0 (stop_file b) [] = Inr [(1, Halt)]"
    unfolding stop_file_def
    by (simp only: parse_lines.simps stop_comment stop_line) (simp add: stop_code)
  then have p: "parse_assembly (AssemblyParser_init (stop_file b) st e) = Inr ?P"
    by (simp add: parse_assembly_def AssemblyParser_init_def c)
  have l: "loop_body 300 [(1, Halt)] \<lparr>instruction = 1, count = 0\<rparr> (vs, []) = Inr (None, (vs, [1]))" for vs
    by (simp add: loop_body_def)
  have r: "run ?P = Inr (?P, [1])"
    by (simp add: run_unfold run_loop.simps l)
  from p r show ?thesis by (simp add: assemble_and_run_def)
qed

text \<open>
  C7. The program \<^verbatim>\<open>(1) if (x == 0) goto 3\<close>, \<^verbatim>\<open>(2) x = x + 1\<close>,
  \<^verbatim>\<open>(3) stop\<close> with \<open>x = 0\<close> at the start: the run executes line 1 and then
  line 3, never line 2, and ends without an error with \<open>x\<close> still 0.
\<close>

theorem conditional_jump_example:
  "final_value (assemble_and_run
       [''(1) if (x == 0) goto 3'' @ [newline], ''(2) x = x + 1'' @ [newline], ''(3) stop'']
       (Some [(''x'', 0)]) e) ''x'' = Some (Some 0)
   \<and> output_of (assemble_and_run
       [''(1) if (x == 0) goto 3'' @ [newline], ''(2) x = x + 1'' @ [newline], ''(3) stop'']
       (Some [(''x'', 0)]) e) = Some [1, 3]"
proof
  show "final_value (assemble_and_run
       [''(1) if (x == 0) goto 3'' @ [newline], ''(2) x = x + 1'' @ [newline], ''(3) stop'']
       (Some [(''x'', 0)]) e) ''x'' = Some (Some 0)"
    by code_simp
  show "output_of (assemble_and_run
       [''(1) if (x == 0) goto 3'' @ [newline], ''(2) x = x + 1'' @ [newline], ''(3) stop'']
       (Some [(''x'', 0)]) e) = Some [1, 3]"
    by code_simp
qed

text \<open>
  C3, as the program behaves. The program \<^verbatim>\<open>(1) x = x + 1\<close>, \<^verbatim>\<open>(2) goto 1\<close>
  with \<open>x = 0\<close> at the start ends normally, without an error, when the generator's
  counter passes 300, and then \<open>x\<close> is 101: the counter goes up at every \<^verbatim>\<open>next\<close>
  and at every \<^verbatim>\<open>send\<close>, three times for each pass through the two lines, and 201
  instructions have been executed.
\<close>

theorem runaway_loop_example:
  "final_value (assemble_and_run [''(1) x = x + 1'' @ [newline], ''(2) goto 1'']
       (Some [(''x'', 0)]) e) ''x'' = Some (Some 101)
   \<and> map_option length (output_of (assemble_and_run
       [''(1) x = x + 1'' @ [newline], ''(2) goto 1''] (Some [(''x'', 0)]) e)) = Some 201"
proof
  show "final_value (assemble_and_run [''(1) x = x + 1'' @ [newline], ''(2) goto 1'']
       (Some [(''x'', 0)]) e) ''x'' = Some (Some 101)"
    by code_simp
  show "map_option length (output_of (assemble_and_run
       [''(1) x = x + 1'' @ [newline], ''(2) goto 1''] (Some [(''x'', 0)]) e)) = Some 201"
    by code_simp
qed

text \<open>
  C3, as it was stated, says that the final value of \<open>x\<close> is the limit, 300. It is
  not.
\<close>

theorem runaway_loop_counterexample:
  "final_value (assemble_and_run [''(1) x = x + 1'' @ [newline], ''(2) goto 1'']
       (Some [(''x'', 0)]) (- 1)) ''x'' \<noteq> Some (Some 300)"
  by code_simp

section \<open>Properties of the parser\<close>

text \<open>
  C1. The claim is that the level given to the constructor selects the extension forms:
  none at \<open>-1\<close>, the transfer at 0, the addition as well at 1, all three at 2. The
  constructor does not read the level: every parser is the parser of level 0. So at the
  default level \<open>-1\<close> the line \<^verbatim>\<open>(1) x = y\<close> is recognised as a transfer, and at
  the levels 1 and 2 the addition and the absolute difference are rejected as
  unrecognised statements.
\<close>

theorem extension_level_not_read:
  "AssemblyParser_init f st k = AssemblyParser_init f st 0
   \<and> map_sum id instructions (parse_assembly (AssemblyParser_init [''(1) x = y''] None (- 1)))
       = Inr [(1, Transfer ''x'' ''y'')]
   \<and> map_sum id instructions (parse_assembly (AssemblyParser_init [''(1) x = x + y''] None 1))
       = Inl (SyntaxError_no_matching_instruction ''x = x + y'')
   \<and> map_sum id instructions
         (parse_assembly (AssemblyParser_init [''(1) z = abs(x - y)''] None 2))
       = Inl (SyntaxError_no_matching_instruction ''z = abs(x - y)'')"
proof (intro conjI)
  show "AssemblyParser_init f st k = AssemblyParser_init f st 0"
    by (simp add: AssemblyParser_init_def)
  show "map_sum id instructions (parse_assembly (AssemblyParser_init [''(1) x = y''] None (- 1)))
       = Inr [(1, Transfer ''x'' ''y'')]"
    by code_simp
  show "map_sum id instructions (parse_assembly (AssemblyParser_init [''(1) x = x + y''] None 1))
       = Inl (SyntaxError_no_matching_instruction ''x = x + y'')"
    by code_simp
  show "map_sum id instructions
         (parse_assembly (AssemblyParser_init [''(1) z = abs(x - y)''] None 2))
       = Inl (SyntaxError_no_matching_instruction ''z = abs(x - y)'')"
    by code_simp
qed

text \<open>
  C2, as the program behaves. For a file whose lines other than comments all parse and
  carry distinct numbers, \<^verbatim>\<open>parse_assembly\<close> succeeds exactly when the numbers, in the
  order in which the lines stand in the file, are 1, 2, ... up to the number of
  instructions; otherwise it raises the \<^verbatim>\<open>SyntaxError\<close> about the numbering, and
  nothing is executed.
\<close>

theorem numbering_in_file_order:
  assumes "\<forall>line \<in> set (source_lines f).
             parse_line (ext (AssemblyParser_init f st k)) line \<noteq> None"
    and "distinct (line_numbers f)"
  shows "((\<exists>parser. parse_assembly (AssemblyParser_init f st k) = Inr parser)
            = (line_numbers f = [1 .. int (length (line_numbers f))]))
    \<and> (line_numbers f \<noteq> [1 .. int (length (line_numbers f))] \<longrightarrow>
          parse_assembly (AssemblyParser_init f st k) = Inl SyntaxError_line_numbers
        \<and> assemble_and_run f st k = Inl SyntaxError_line_numbers)"
proof -
  from assms have "\<forall>line \<in> set (source_lines f). parse_line 0 line \<noteq> None"
    by (simp add: AssemblyParser_init_def)
  moreover from assms(2) have "distinct (map fst [] @ line_numbers f)" by simp
  ultimately obtain new where pl: "parse_lines 0 f [] = Inr new"
    and ks: "map fst new = line_numbers f"
    using parse_lines_all [of f 0 "[]"] by auto
  have ck: "check_keys 0 (map fst new) = (line_numbers f = [1 .. int (length (line_numbers f))])"
    by (simp add: check_keys_upto ks)
  show ?thesis
    by (simp add: parse_assembly_def assemble_and_run_def AssemblyParser_init_def pl ck)
qed

theorem numbering_in_file_order_witness:
  "(\<exists>parser. parse_assembly (AssemblyParser_init
        [''(1) x = 0'' @ [newline], ''// a comment'' @ [newline], ''(2) stop''] None (- 1))
       = Inr parser)
   \<and> parse_assembly (AssemblyParser_init
        [''(1) x = 0'' @ [newline], ''// a comment'' @ [newline], ''(3) stop''] None (- 1))
       = Inl SyntaxError_line_numbers"
proof
  let ?f = "[''(1) x = 0'' @ [newline], ''// a comment'' @ [newline], ''(2) stop'']"
  have h1: "\<forall>line \<in> set (source_lines ?f).
             parse_line (ext (AssemblyParser_init ?f None (- 1))) line \<noteq> None"
    by code_simp
  have n: "line_numbers ?f = [1, 2]" by code_simp
  then have h2: "distinct (line_numbers ?f)" by simp
  have u: "[1 .. 2 :: int] = [1, 2]" by code_simp
  have t: "line_numbers ?f = [1 .. int (length (line_numbers ?f))]"
    unfolding n by (simp add: u)
  from numbering_in_file_order [OF h1 h2, THEN conjunct1] t
  show "\<exists>parser. parse_assembly (AssemblyParser_init ?f None (- 1)) = Inr parser"
    by (rule iffD2)
next
  let ?f = "[''(1) x = 0'' @ [newline], ''// a comment'' @ [newline], ''(3) stop'']"
  have h1: "\<forall>line \<in> set (source_lines ?f).
             parse_line (ext (AssemblyParser_init ?f None (- 1))) line \<noteq> None"
    by code_simp
  have n: "line_numbers ?f = [1, 3]" by code_simp
  then have h2: "distinct (line_numbers ?f)" by simp
  have u: "[1 .. 2 :: int] = [1, 2]" by code_simp
  have t: "line_numbers ?f \<noteq> [1 .. int (length (line_numbers ?f))]"
    unfolding n by (simp add: u)
  from numbering_in_file_order [OF h1 h2, THEN conjunct2, rule_format, OF t, THEN conjunct1]
  show "parse_assembly (AssemblyParser_init ?f None (- 1)) = Inl SyntaxError_line_numbers" .
qed

text \<open>
  C2, as it was stated, accepts a file whose numbers form the set from 1 to the number of
  instructions in any order. The file with line 2 before line 1 is rejected, although
  both lines parse and their numbers are distinct and form that set.
\<close>

theorem out_of_order_counterexample:
  "map_sum id instructions
     (parse_assembly (AssemblyParser_init [''(2) stop'' @ [newline], ''(1) stop''] None (- 1)))
     = Inl SyntaxError_line_numbers
   \<and> set (line_numbers [''(2) stop'' @ [newline], ''(1) stop'']) = {1..2}
   \<and> distinct (line_numbers [''(2) stop'' @ [newline], ''(1) stop''])
   \<and> list_all (\<lambda>l. parse_line 0 l \<noteq> None) (source_lines [''(2) stop'' @ [newline], ''(1) stop''])"
proof (intro conjI)
  show "map_sum id instructions
     (parse_assembly (AssemblyParser_init [''(2) stop'' @ [newline], ''(1) stop''] None (- 1)))
     = Inl SyntaxError_line_numbers"
    by code_simp
  have "line_numbers [''(2) stop'' @ [newline], ''(1) stop''] = [2, 1]"
    by code_simp
  then show "set (line_numbers [''(2) stop'' @ [newline], ''(1) stop'']) = {1..2}"
    and "distinct (line_numbers [''(2) stop'' @ [newline], ''(1) stop''])"
    by auto
  show "list_all (\<lambda>l. parse_line 0 l \<noteq> None) (source_lines [''(2) stop'' @ [newline], ''(1) stop''])"
    by code_simp
qed

end
